theory Spec2Isabelle
  imports Main
begin

section \<open>The aggregate interface\<close>

text \<open>
  \<^verbatim>\<open>type AggregateType string\<close>: a type name is a Go string, compared with \<open>==\<close>.
\<close>

type_synonym AggregateType = string

text \<open>
  An \<^verbatim>\<open>Aggregate\<close> is an interface value. The registry only ever calls
  \<^verbatim>\<open>AggregateType()\<close> on it; callers read \<^verbatim>\<open>AggregateID()\<close> and \<^verbatim>\<open>Version()\<close>.
  An instance is modelled by what these three getters return. The identifier type
  \<^verbatim>\<open>UUID\<close> is declared in another file of the package and stays a type parameter.
  A nil interface value is \<open>None\<close>.
\<close>

record 'u Aggregate =
  AggregateType :: AggregateType
  AggregateID :: 'u
  Version :: int

text \<open>
  \<^verbatim>\<open>func(UUID) Aggregate\<close>: a factory. Factories are taken to be functions of the
  identifier that return normally (they do not panic and do not call back into the
  registry); they may return nil.
\<close>

type_synonym 'u factory = "'u \<Rightarrow> 'u Aggregate option"

section \<open>The registry\<close>

text \<open>
  The actions a call performs on the shared variables, in program order:
  the two sides of \<^verbatim>\<open>aggregatesMu\<close>, reads and writes of the map \<^verbatim>\<open>aggregates\<close>,
  and invocations of a factory with the identifier passed to it.
\<close>

datatype 'u event =
    Lock | Unlock | RLock | RUnlock
  | Load AggregateType
  | Store AggregateType
  | Invoke 'u

text \<open>
  The package-level state: \<^verbatim>\<open>var aggregates = make(map[AggregateType]func(UUID) Aggregate)\<close>
  and the history of actions performed so far.
\<close>

record 'u registry =
  aggregates :: "AggregateType \<rightharpoonup> 'u factory"
  trace :: "'u event list"

definition init :: "'u registry" where
  "init = \<lparr>aggregates = Map.empty, trace = []\<rparr>"

definition emit :: "'u event \<Rightarrow> 'u registry \<Rightarrow> 'u registry" where
  "emit e s = s\<lparr>trace := trace s @ [e]\<rparr>"

text \<open>\<^verbatim>\<open>var ErrAggregateNotRegistered = errors.New("aggregate not registered")\<close>\<close>

datatype error = ErrAggregateNotRegistered

fun Error :: "error \<Rightarrow> string" where
  "Error ErrAggregateNotRegistered = ''aggregate not registered''"

text \<open>
  The value handed to \<^verbatim>\<open>panic\<close>: either a string literal, or the result of
  \<^verbatim>\<open>fmt.Sprintf(format, arg)\<close>, kept as the format together with its argument.
\<close>

datatype panic =
    PanicString string
  | PanicSprintf string AggregateType

text \<open>How a call ends: it returns a value, or it panics.\<close>

datatype 'r outcome = Returns 'r | Panics panic

text \<open>
  \<^verbatim>\<open>func RegisterAggregate(factory func(UUID) Aggregate)\<close>. The argument \<open>newUUID\<close>
  is the identifier that the call \<^verbatim>\<open>NewUUID()\<close> produced. The deferred
  \<^verbatim>\<open>aggregatesMu.Unlock()\<close> runs on both ways out of the locked region, also when
  the duplicate check panics.
\<close>

definition RegisterAggregate ::
  "'u factory \<Rightarrow> 'u \<Rightarrow> 'u registry \<Rightarrow> unit outcome \<times> 'u registry" where
  "RegisterAggregate factory newUUID s =
    (let s1 = emit (Invoke newUUID) s;
         aggregate = factory newUUID
     in case aggregate of
          None \<Rightarrow> (Panics (PanicString ''eventhorizon: created aggregate is nil''), s1)
        | Some a \<Rightarrow>
            (let aggregateType = AggregateType a in
             if aggregateType = ''''
             then (Panics (PanicString
                     ''eventhorizon: attempt to register empty aggregate type''), s1)
             else
               (let s2 = emit Lock s1;
                    s3 = emit (Load aggregateType) s2
                in (case aggregates s3 aggregateType of
                      Some registered \<Rightarrow>
                        (Panics (PanicSprintf
                           ''eventhorizon: registering duplicate types for %q'' aggregateType),
                         emit Unlock s3)
                    | None \<Rightarrow>
                        (let s4 = emit (Store aggregateType)
                               (s3\<lparr>aggregates := (aggregates s3)(aggregateType \<mapsto> factory)\<rparr>)
                         in (Returns (), emit Unlock s4))))))"

text \<open>
  \<^verbatim>\<open>func CreateAggregate(aggregateType AggregateType, id UUID) (Aggregate, error)\<close>.
  The result pair is kept as a pair: the instance (possibly nil) and the error
  (possibly nil). The deferred \<^verbatim>\<open>aggregatesMu.RUnlock()\<close> runs after the factory
  has been invoked.
\<close>

definition CreateAggregate ::
  "AggregateType \<Rightarrow> 'u \<Rightarrow> 'u registry \<Rightarrow>
     ('u Aggregate option \<times> error option) outcome \<times> 'u registry" where
  "CreateAggregate aggregateType uid s =
    (let s1 = emit RLock s;
         s2 = emit (Load aggregateType) s1
     in case aggregates s2 aggregateType of
          Some factory \<Rightarrow>
            (let s3 = emit (Invoke uid) s2
             in (Returns (factory uid, None), emit RUnlock s3))
        | None \<Rightarrow> (Returns (None, Some ErrAggregateNotRegistered), emit RUnlock s2))"

section \<open>Sequences of calls\<close>

text \<open>
  A program is a sequence of calls on the registry. A panic of \<open>RegisterAggregate\<close>
  that the caller recovers from leaves the package state as the call left it, and the
  next call runs on that state; a program that dies at the panic is a prefix of such
  a sequence.
\<close>

datatype 'u call =
    Register "'u factory" 'u
  | Create AggregateType 'u

fun exec :: "'u call \<Rightarrow> 'u registry \<Rightarrow> 'u registry" where
  "exec (Register factory newUUID) s = snd (RegisterAggregate factory newUUID s)"
| "exec (Create aggregateType uid) s = snd (CreateAggregate aggregateType uid s)"

fun run :: "'u call list \<Rightarrow> 'u registry \<Rightarrow> 'u registry" where
  "run [] s = s"
| "run (c # cs) s = run cs (exec c s)"

section \<open>Properties of factories and of traces\<close>

text \<open>
  A factory is uniform for a type name when every instance it returns reports that
  type name and the identifier the factory was called with.
\<close>

definition uniform :: "'u factory \<Rightarrow> AggregateType \<Rightarrow> bool" where
  "uniform factory t =
     (\<forall>uid a. factory uid = Some a \<longrightarrow> AggregateType a = t \<and> AggregateID a = uid)"

text \<open>The actions performed between an earlier state and a later one.\<close>

definition since :: "'u registry \<Rightarrow> 'u registry \<Rightarrow> 'u event list" where
  "since s s' = drop (length (trace s)) (trace s')"

text \<open>The identifiers that factories were invoked with, in order.\<close>

fun invocations :: "'u event list \<Rightarrow> 'u list" where
  "invocations [] = []"
| "invocations (Invoke u # es) = u # invocations es"
| "invocations (e # es) = invocations es"

text \<open>
  No factory is invoked while the exclusive lock is held. The flag says whether
  the lock is held before the first action.
\<close>

fun invoked_unlocked :: "bool \<Rightarrow> 'u event list \<Rightarrow> bool" where
  "invoked_unlocked held [] = True"
| "invoked_unlocked held (Lock # es) = invoked_unlocked True es"
| "invoked_unlocked held (Unlock # es) = invoked_unlocked False es"
| "invoked_unlocked held (Invoke u # es) = (\<not> held \<and> invoked_unlocked held es)"
| "invoked_unlocked held (e # es) = invoked_unlocked held es"

text \<open>Every read and write of the map happens while the exclusive lock is held.\<close>

fun accessed_locked :: "bool \<Rightarrow> 'u event list \<Rightarrow> bool" where
  "accessed_locked held [] = True"
| "accessed_locked held (Lock # es) = accessed_locked True es"
| "accessed_locked held (Unlock # es) = accessed_locked False es"
| "accessed_locked held (Load t # es) = (held \<and> accessed_locked held es)"
| "accessed_locked held (Store t # es) = (held \<and> accessed_locked held es)"
| "accessed_locked held (e # es) = accessed_locked held es"










section \<open>Example factories\<close>

definition order_factory :: "nat factory" where
  "order_factory uid = Some \<lparr>AggregateType = ''Order'', AggregateID = uid, Version = 0\<rparr>"

text \<open>A different factory for the same type name.\<close>

definition order_factory_v1 :: "nat factory" where
  "order_factory_v1 uid = Some \<lparr>AggregateType = ''Order'', AggregateID = uid, Version = 1\<rparr>"

definition nil_factory :: "nat factory" where
  "nil_factory uid = None"

definition unnamed_factory :: "nat factory" where
  "unnamed_factory uid = Some \<lparr>AggregateType = '''', AggregateID = uid, Version = 0\<rparr>"


text \<open>
  A factory for orders that returns nil for one identifier and, for identifiers
  other than the one it is probed with, an instance of another type name and
  another identifier.
\<close>

definition sloppy_factory :: "nat factory" where
  "sloppy_factory uid =
     (if uid = 7
      then Some \<lparr>AggregateType = ''Order'', AggregateID = 7, Version = 0\<rparr>
      else if uid = 100 then None
      else Some \<lparr>AggregateType = ''Invoice'', AggregateID = 0, Version = 0\<rparr>)"


section \<open>Basic facts\<close>

lemma RegisterAggregate_outcome:
  "fst (RegisterAggregate factory newUUID s) =
     (case factory newUUID of
        None \<Rightarrow> Panics (PanicString ''eventhorizon: created aggregate is nil'')
      | Some a \<Rightarrow>
          if AggregateType a = ''''
          then Panics (PanicString ''eventhorizon: attempt to register empty aggregate type'')
          else if aggregates s (AggregateType a) = None
          then Returns ()
          else Panics (PanicSprintf ''eventhorizon: registering duplicate types for %q''
                         (AggregateType a)))"
  by (simp add: RegisterAggregate_def Let_def emit_def split: option.splits)

lemma RegisterAggregate_aggregates:
  "aggregates (snd (RegisterAggregate factory newUUID s)) =
     (case factory newUUID of
        None \<Rightarrow> aggregates s
      | Some a \<Rightarrow>
          if AggregateType a = '''' then aggregates s
          else if aggregates s (AggregateType a) = None
          then (aggregates s)(AggregateType a \<mapsto> factory)
          else aggregates s)"
  by (simp add: RegisterAggregate_def Let_def emit_def split: option.splits)

lemma CreateAggregate_outcome:
  "fst (CreateAggregate aggregateType uid s) =
     (case aggregates s aggregateType of
        None \<Rightarrow> Returns (None, Some ErrAggregateNotRegistered)
      | Some factory \<Rightarrow> Returns (factory uid, None))"
  by (simp add: CreateAggregate_def Let_def emit_def split: option.splits)

lemma CreateAggregate_aggregates:
  "aggregates (snd (CreateAggregate aggregateType uid s)) = aggregates s"
  by (simp add: CreateAggregate_def Let_def emit_def split: option.splits)

lemma exec_keeps_binding:
  "aggregates s t = Some factory \<Longrightarrow> aggregates (exec c s) t = Some factory"
  by (cases c)
     (auto simp: RegisterAggregate_aggregates CreateAggregate_aggregates
           split: option.splits)

lemma run_keeps_binding:
  "aggregates s t = Some factory \<Longrightarrow> aggregates (run cs s) t = Some factory"
  by (induction cs arbitrary: s) (simp_all add: exec_keeps_binding)

lemma RegisterAggregate_trace:
  "trace (snd (RegisterAggregate factory newUUID s)) = trace s @
     (case factory newUUID of
        None \<Rightarrow> [Invoke newUUID]
      | Some a \<Rightarrow>
          if AggregateType a = '''' then [Invoke newUUID]
          else if aggregates s (AggregateType a) = None
          then [Invoke newUUID, Lock, Load (AggregateType a), Store (AggregateType a), Unlock]
          else [Invoke newUUID, Lock, Load (AggregateType a), Unlock])"
  by (simp add: RegisterAggregate_def Let_def emit_def split: option.splits)

lemma since_append: "trace s' = trace s @ es \<Longrightarrow> since s s' = es"
  by (simp add: since_def)

lemma RegisterAggregate_binds:
  assumes "fst (RegisterAggregate factory newUUID s) = Returns ()"
      and "factory newUUID = Some probe"
  shows "aggregates (snd (RegisterAggregate factory newUUID s)) (AggregateType probe)
           = Some factory"
proof -
  from assms have "AggregateType probe \<noteq> '''' \<and> aggregates s (AggregateType probe) = None"
    by (auto simp: RegisterAggregate_outcome split: if_splits)
  with assms(2) show ?thesis
    by (simp add: RegisterAggregate_aggregates)
qed

lemma order_registered:
  "aggregates (snd (RegisterAggregate order_factory 7 init)) ''Order'' = Some order_factory"
  by (simp add: RegisterAggregate_aggregates order_factory_def init_def)







section \<open>Creation after registration\<close>

text \<open>
  C1. Once \<open>RegisterAggregate\<close> has returned normally for a factory whose probe
  reports the type name \<open>t\<close>, then after any further calls \<open>CreateAggregate t uid\<close>
  returns, with a nil error, exactly what the registered factory returns for \<open>uid\<close>.
  If the factory is uniform for \<open>t\<close>, an instance returned that way reports the type
  name \<open>t\<close> and the identifier \<open>uid\<close>.
\<close>

theorem CreateAggregate_registered:
  assumes "fst (RegisterAggregate factory newUUID s) = Returns ()"
      and "factory newUUID = Some probe"
  shows "fst (CreateAggregate (AggregateType probe) uid
                (run cs (snd (RegisterAggregate factory newUUID s))))
           = Returns (factory uid, None)
         \<and> (uniform factory (AggregateType probe) \<longrightarrow>
              (\<forall>a. factory uid = Some a \<longrightarrow>
                 AggregateType a = AggregateType probe \<and> AggregateID a = uid))"
proof (rule conjI)
  let ?t = "AggregateType probe"
  let ?s1 = "snd (RegisterAggregate factory newUUID s)"
  from assms have fresh: "?t \<noteq> '''' \<and> aggregates s ?t = None"
    by (auto simp: RegisterAggregate_outcome split: if_splits)
  with assms(2) have "aggregates ?s1 ?t = Some factory"
    by (simp add: RegisterAggregate_aggregates)
  then have "aggregates (run cs ?s1) ?t = Some factory"
    by (rule run_keeps_binding)
  then show "fst (CreateAggregate ?t uid (run cs ?s1)) = Returns (factory uid, None)"
    by (simp add: CreateAggregate_outcome)
next
  show "uniform factory (AggregateType probe) \<longrightarrow>
      (\<forall>a. factory uid = Some a \<longrightarrow>
         AggregateType a = AggregateType probe \<and> AggregateID a = uid)"
    unfolding uniform_def by blast
qed

theorem CreateAggregate_registered_witness:
  "fst (RegisterAggregate order_factory 7 init) = Returns ()
   \<and> order_factory 7 = Some \<lparr>AggregateType = ''Order'', AggregateID = 7, Version = 0\<rparr>
   \<and> uniform order_factory ''Order''
   \<and> fst (CreateAggregate ''Order'' 42
            (run [Create ''Order'' 1, Register order_factory_v1 8]
               (snd (RegisterAggregate order_factory 7 init))))
        = Returns (Some \<lparr>AggregateType = ''Order'', AggregateID = 42, Version = 0\<rparr>, None)"
proof -
  have reg: "fst (RegisterAggregate order_factory 7 init) = Returns ()"
    by (simp add: RegisterAggregate_outcome order_factory_def init_def)
  have probe: "order_factory 7
      = Some \<lparr>AggregateType = ''Order'', AggregateID = 7, Version = 0\<rparr>"
    by (simp add: order_factory_def)
  have uni: "uniform order_factory ''Order''"
    unfolding uniform_def order_factory_def by simp
  have created: "fst (CreateAggregate ''Order'' 42
            (run [Create ''Order'' 1, Register order_factory_v1 8]
               (snd (RegisterAggregate order_factory 7 init))))
        = Returns (order_factory 42, None)"
    using CreateAggregate_registered [OF reg probe, of 42
      "[Create ''Order'' 1, Register order_factory_v1 8]", THEN conjunct1]
    by simp
  have inst: "order_factory 42
      = Some \<lparr>AggregateType = ''Order'', AggregateID = 42, Version = 0\<rparr>"
    by (simp add: order_factory_def)
  show ?thesis
    unfolding created inst using reg probe uni by (intro conjI) simp_all
qed

section \<open>Lookup of an unregistered type name\<close>

text \<open>
  C2. For every type name with no registered factory, \<open>CreateAggregate\<close> returns
  the sentinel error \<open>ErrAggregateNotRegistered\<close> together with a nil instance; the
  call returns, it does not panic.
\<close>

theorem CreateAggregate_not_registered:
  assumes "aggregates s aggregateType = None"
  shows "fst (CreateAggregate aggregateType uid s)
           = Returns (None, Some ErrAggregateNotRegistered)"
  using assms by (simp add: CreateAggregate_outcome)

theorem CreateAggregate_not_registered_witness:
  "aggregates (init :: nat registry) ''Order'' = None
   \<and> fst (CreateAggregate ''Order'' (42::nat) init)
       = Returns (None, Some ErrAggregateNotRegistered)"
proof -
  have h: "aggregates (init :: nat registry) ''Order'' = None"
    by (simp add: init_def)
  from h CreateAggregate_not_registered [OF h, of 42] show ?thesis by simp
qed

section \<open>Registration failures\<close>

text \<open>
  C3. Registering a factory whose probe reports a type name that is already bound in
  the registry panics, whatever factory is bound there: the same one or another one.
  For a non-empty type name the panic is the duplicate-type panic.
\<close>

theorem RegisterAggregate_duplicate:
  assumes "factory newUUID = Some probe"
      and "aggregates s (AggregateType probe) = Some registered"
  shows "fst (RegisterAggregate factory newUUID s) =
           Panics (if AggregateType probe = ''''
                   then PanicString ''eventhorizon: attempt to register empty aggregate type''
                   else PanicSprintf ''eventhorizon: registering duplicate types for %q''
                          (AggregateType probe))"
  using assms by (simp add: RegisterAggregate_outcome)

theorem RegisterAggregate_duplicate_witness:
  "order_factory 8 = Some \<lparr>AggregateType = ''Order'', AggregateID = 8, Version = 0\<rparr>
   \<and> order_factory_v1 9 = Some \<lparr>AggregateType = ''Order'', AggregateID = 9, Version = 1\<rparr>
   \<and> order_factory_v1 \<noteq> order_factory
   \<and> aggregates (snd (RegisterAggregate order_factory 7 init)) ''Order'' = Some order_factory
   \<and> fst (RegisterAggregate order_factory 8 (snd (RegisterAggregate order_factory 7 init)))
       = Panics (PanicSprintf ''eventhorizon: registering duplicate types for %q'' ''Order'')
   \<and> fst (RegisterAggregate order_factory_v1 9 (snd (RegisterAggregate order_factory 7 init)))
       = Panics (PanicSprintf ''eventhorizon: registering duplicate types for %q'' ''Order'')"
proof -
  let ?s1 = "snd (RegisterAggregate order_factory 7 init)"
  have same: "order_factory 8
      = Some \<lparr>AggregateType = ''Order'', AggregateID = 8, Version = 0\<rparr>"
    by (simp add: order_factory_def)
  have other: "order_factory_v1 9
      = Some \<lparr>AggregateType = ''Order'', AggregateID = 9, Version = 1\<rparr>"
    by (simp add: order_factory_v1_def)
  have differ: "order_factory_v1 \<noteq> order_factory"
  proof
    assume "order_factory_v1 = order_factory"
    then have "order_factory_v1 0 = order_factory 0" by simp
    then show False by (simp add: order_factory_def order_factory_v1_def)
  qed
  have bound: "aggregates ?s1 ''Order'' = Some order_factory"
    by (simp add: RegisterAggregate_aggregates order_factory_def init_def)
  from bound have bound8:
    "aggregates ?s1
       (AggregateType \<lparr>AggregateType = ''Order'', AggregateID = 8::nat, Version = 0\<rparr>)
       = Some order_factory"
    by simp
  from bound have bound9:
    "aggregates ?s1
       (AggregateType \<lparr>AggregateType = ''Order'', AggregateID = 9::nat, Version = 1\<rparr>)
       = Some order_factory"
    by simp
  have again: "fst (RegisterAggregate order_factory 8 ?s1)
      = Panics (PanicSprintf ''eventhorizon: registering duplicate types for %q'' ''Order'')"
    using RegisterAggregate_duplicate
      [where factory = order_factory and newUUID = 8 and s = ?s1, OF same bound8]
    by simp
  have another: "fst (RegisterAggregate order_factory_v1 9 ?s1)
      = Panics (PanicSprintf ''eventhorizon: registering duplicate types for %q'' ''Order'')"
    using RegisterAggregate_duplicate
      [where factory = order_factory_v1 and newUUID = 9 and s = ?s1, OF other bound9]
    by simp
  from same other differ bound again another
  show ?thesis by (intro conjI)
qed

text \<open>
  C4. \<open>RegisterAggregate\<close> panics when the probe built by the factory is nil, and
  it panics when the probe reports the empty type name.
\<close>

theorem RegisterAggregate_invalid_probe:
  "(factory newUUID = None \<longrightarrow>
      fst (RegisterAggregate factory newUUID s)
        = Panics (PanicString ''eventhorizon: created aggregate is nil''))
   \<and> (\<forall>probe. factory newUUID = Some probe \<and> AggregateType probe = '''' \<longrightarrow>
      fst (RegisterAggregate factory newUUID s)
        = Panics (PanicString ''eventhorizon: attempt to register empty aggregate type''))"
  by (simp add: RegisterAggregate_outcome)

theorem RegisterAggregate_invalid_probe_witness:
  "nil_factory 7 = None
   \<and> fst (RegisterAggregate nil_factory 7 init)
       = Panics (PanicString ''eventhorizon: created aggregate is nil'')
   \<and> unnamed_factory 7 = Some \<lparr>AggregateType = '''', AggregateID = 7, Version = 0\<rparr>
   \<and> fst (RegisterAggregate unnamed_factory 7 init)
       = Panics (PanicString ''eventhorizon: attempt to register empty aggregate type'')"
proof -
  have nil: "nil_factory 7 = None"
    by (simp add: nil_factory_def)
  have unnamed: "unnamed_factory 7
      = Some \<lparr>AggregateType = '''', AggregateID = 7, Version = 0\<rparr>"
    by (simp add: unnamed_factory_def)
  from RegisterAggregate_invalid_probe [of nil_factory 7 init]
       RegisterAggregate_invalid_probe [of unnamed_factory 7 init]
       nil unnamed
  show ?thesis by simp
qed

section \<open>The registry map over time\<close>

text \<open>
  C5. A binding of the registry is never overwritten or removed: if a type name is
  bound to a factory, then after every sequence of \<open>RegisterAggregate\<close> and
  \<open>CreateAggregate\<close> calls it is still bound to that factory, and a lookup of it
  invokes that factory. \<open>CreateAggregate\<close> leaves the map as it found it.
\<close>

theorem registry_binding_immutable:
  "(aggregates s t = Some factory \<longrightarrow>
      aggregates (run cs s) t = Some factory
      \<and> fst (CreateAggregate t uid (run cs s)) = Returns (factory uid, None))
   \<and> aggregates (snd (CreateAggregate aggregateType uid' s)) = aggregates s"
proof (intro conjI impI)
  assume "aggregates s t = Some factory"
  then show kept: "aggregates (run cs s) t = Some factory"
    by (rule run_keeps_binding)
  then show "fst (CreateAggregate t uid (run cs s)) = Returns (factory uid, None)"
    by (simp add: CreateAggregate_outcome)
next
  show "aggregates (snd (CreateAggregate aggregateType uid' s)) = aggregates s"
    by (rule CreateAggregate_aggregates)
qed

theorem registry_binding_immutable_witness:
  "aggregates (snd (RegisterAggregate order_factory 7 init)) ''Order'' = Some order_factory
   \<and> aggregates
        (run [Register order_factory_v1 8, Create ''Order'' 1, Register nil_factory 9,
              Register unnamed_factory 10]
           (snd (RegisterAggregate order_factory 7 init))) ''Order'' = Some order_factory
   \<and> fst (CreateAggregate ''Order'' 42
        (run [Register order_factory_v1 8, Create ''Order'' 1, Register nil_factory 9,
              Register unnamed_factory 10]
           (snd (RegisterAggregate order_factory 7 init))))
       = Returns (Some \<lparr>AggregateType = ''Order'', AggregateID = 42, Version = 0\<rparr>, None)
   \<and> aggregates (snd (CreateAggregate ''Order'' 42 (snd (RegisterAggregate order_factory 7 init))))
       = aggregates (snd (RegisterAggregate order_factory 7 init))"
proof -
  let ?s1 = "snd (RegisterAggregate order_factory 7 init)"
  let ?cs = "[Register order_factory_v1 8, Create ''Order'' 1, Register nil_factory 9,
              Register unnamed_factory 10]"
  note inst = registry_binding_immutable
    [where s = ?s1 and t = "''Order''" and factory = order_factory and cs = ?cs
       and uid = 42 and aggregateType = "''Order''" and uid' = 42]
  have bound: "aggregates ?s1 ''Order'' = Some order_factory"
    by (rule order_registered)
  from inst bound have kept: "aggregates (run ?cs ?s1) ''Order'' = Some order_factory"
    by blast
  from inst bound have "fst (CreateAggregate ''Order'' 42 (run ?cs ?s1))
      = Returns (order_factory 42, None)"
    by blast
  then have created: "fst (CreateAggregate ''Order'' 42 (run ?cs ?s1))
      = Returns (Some \<lparr>AggregateType = ''Order'', AggregateID = 42, Version = 0\<rparr>, None)"
    by (simp add: order_factory_def)
  from inst have same: "aggregates (snd (CreateAggregate ''Order'' 42 ?s1)) = aggregates ?s1"
    by blast
  from bound kept created same show ?thesis by (intro conjI)
qed

text \<open>
  C6. A \<open>RegisterAggregate\<close> that panics (nil probe, empty type name, duplicate
  type name) leaves the map unchanged. The binding is inserted only when the call
  returns normally, and then it binds the probe's type name, unbound before, to the
  factory.
\<close>

theorem RegisterAggregate_failure_atomic:
  "(\<forall>p. fst (RegisterAggregate factory newUUID s) = Panics p \<longrightarrow>
        aggregates (snd (RegisterAggregate factory newUUID s)) = aggregates s)
   \<and> (fst (RegisterAggregate factory newUUID s) = Returns () \<longrightarrow>
        (\<exists>probe. factory newUUID = Some probe
           \<and> aggregates s (AggregateType probe) = None
           \<and> aggregates (snd (RegisterAggregate factory newUUID s))
               = (aggregates s)(AggregateType probe \<mapsto> factory)))"
  by (cases "factory newUUID")
     (simp_all add: RegisterAggregate_outcome RegisterAggregate_aggregates)

theorem RegisterAggregate_failure_atomic_witness:
  "fst (RegisterAggregate nil_factory 7 init)
       = Panics (PanicString ''eventhorizon: created aggregate is nil'')
   \<and> aggregates (snd (RegisterAggregate nil_factory 7 init)) = aggregates init
   \<and> fst (RegisterAggregate unnamed_factory 7 init)
       = Panics (PanicString ''eventhorizon: attempt to register empty aggregate type'')
   \<and> aggregates (snd (RegisterAggregate unnamed_factory 7 init)) = aggregates init
   \<and> fst (RegisterAggregate order_factory_v1 8 (snd (RegisterAggregate order_factory 7 init)))
       = Panics (PanicSprintf ''eventhorizon: registering duplicate types for %q'' ''Order'')
   \<and> aggregates (snd (RegisterAggregate order_factory_v1 8
                         (snd (RegisterAggregate order_factory 7 init))))
       = aggregates (snd (RegisterAggregate order_factory 7 init))
   \<and> fst (RegisterAggregate order_factory 7 init) = Returns ()
   \<and> aggregates (snd (RegisterAggregate order_factory 7 init))
       = (aggregates init)(''Order'' \<mapsto> order_factory)"
proof -
  let ?s1 = "snd (RegisterAggregate order_factory 7 init)"
  have nil: "fst (RegisterAggregate nil_factory 7 init)
      = Panics (PanicString ''eventhorizon: created aggregate is nil'')"
    by (simp add: RegisterAggregate_outcome nil_factory_def)
  have unnamed: "fst (RegisterAggregate unnamed_factory 7 init)
      = Panics (PanicString ''eventhorizon: attempt to register empty aggregate type'')"
    by (simp add: RegisterAggregate_outcome unnamed_factory_def)
  have dup: "fst (RegisterAggregate order_factory_v1 8 ?s1)
      = Panics (PanicSprintf ''eventhorizon: registering duplicate types for %q'' ''Order'')"
    by (simp add: RegisterAggregate_outcome order_factory_v1_def order_registered)
  have ok: "fst (RegisterAggregate order_factory 7 init) = Returns ()"
    by (simp add: RegisterAggregate_outcome order_factory_def init_def)
  from nil RegisterAggregate_failure_atomic [of nil_factory 7 init]
  have nil': "aggregates (snd (RegisterAggregate nil_factory 7 init)) = aggregates init"
    by blast
  from unnamed RegisterAggregate_failure_atomic [of unnamed_factory 7 init]
  have unnamed': "aggregates (snd (RegisterAggregate unnamed_factory 7 init)) = aggregates init"
    by blast
  from dup RegisterAggregate_failure_atomic [of order_factory_v1 8 ?s1]
  have dup': "aggregates (snd (RegisterAggregate order_factory_v1 8 ?s1)) = aggregates ?s1"
    by blast
  from ok RegisterAggregate_failure_atomic [of order_factory 7 init]
  have ok': "aggregates ?s1 = (aggregates init)(''Order'' \<mapsto> order_factory)"
    by (auto simp: order_factory_def)
  from nil nil' unnamed unnamed' dup dup' ok ok' show ?thesis by (intro conjI)
qed

section \<open>The order of the steps of a registration\<close>

text \<open>
  C7. \<open>RegisterAggregate\<close> first invokes the factory, once, with the generated
  identifier; the probe is only inspected, the map stores factories. The nil check
  and the empty-name check come next, and a call that fails one of them ends without
  touching the lock. Only then is the exclusive lock taken; the duplicate check (a
  read of the map) and the insertion (a write) happen between \<open>Lock\<close> and
  \<open>Unlock\<close>, and \<open>Unlock\<close> is the last action on both ways out. So no
  factory is invoked while the exclusive lock is held.
\<close>

theorem RegisterAggregate_order_of_steps:
  "trace (snd (RegisterAggregate factory newUUID s)) = trace s @
     (case factory newUUID of
        None \<Rightarrow> [Invoke newUUID]
      | Some a \<Rightarrow>
          if AggregateType a = '''' then [Invoke newUUID]
          else if aggregates s (AggregateType a) = None
          then [Invoke newUUID, Lock, Load (AggregateType a), Store (AggregateType a), Unlock]
          else [Invoke newUUID, Lock, Load (AggregateType a), Unlock])
   \<and> invocations (since s (snd (RegisterAggregate factory newUUID s))) = [newUUID]
   \<and> invoked_unlocked False (since s (snd (RegisterAggregate factory newUUID s)))
   \<and> accessed_locked False (since s (snd (RegisterAggregate factory newUUID s)))
   \<and> aggregates (snd (RegisterAggregate factory newUUID s)) =
       (case factory newUUID of
          None \<Rightarrow> aggregates s
        | Some a \<Rightarrow>
            if AggregateType a = '''' then aggregates s
            else if aggregates s (AggregateType a) = None
            then (aggregates s)(AggregateType a \<mapsto> factory)
            else aggregates s)"
proof -
  let ?s' = "snd (RegisterAggregate factory newUUID s)"
  let ?es = "case factory newUUID of
        None \<Rightarrow> [Invoke newUUID]
      | Some a \<Rightarrow>
          if AggregateType a = '''' then [Invoke newUUID]
          else if aggregates s (AggregateType a) = None
          then [Invoke newUUID, Lock, Load (AggregateType a), Store (AggregateType a), Unlock]
          else [Invoke newUUID, Lock, Load (AggregateType a), Unlock]"
  have tr: "trace ?s' = trace s @ ?es"
    by (rule RegisterAggregate_trace)
  then have es: "since s ?s' = ?es"
    by (rule since_append)
  have "invocations ?es = [newUUID]"
    by (simp split: option.splits)
  moreover have "invoked_unlocked False ?es"
    by (simp split: option.splits)
  moreover have "accessed_locked False ?es"
    by (simp split: option.splits)
  moreover note RegisterAggregate_aggregates [of factory newUUID s]
  ultimately show ?thesis
    unfolding es using tr by (intro conjI)
qed

theorem RegisterAggregate_order_of_steps_witness:
  "trace (snd (RegisterAggregate order_factory 7 init))
       = [Invoke 7, Lock, Load ''Order'', Store ''Order'', Unlock]
   \<and> invocations (since init (snd (RegisterAggregate order_factory 7 init))) = [7]
   \<and> invoked_unlocked False (since init (snd (RegisterAggregate order_factory 7 init)))
   \<and> accessed_locked False (since init (snd (RegisterAggregate order_factory 7 init)))
   \<and> trace (snd (RegisterAggregate nil_factory 7 init)) = [Invoke 7]
   \<and> trace (snd (RegisterAggregate order_factory_v1 8
                    (snd (RegisterAggregate order_factory 7 init))))
       = [Invoke 7, Lock, Load ''Order'', Store ''Order'', Unlock,
          Invoke 8, Lock, Load ''Order'', Unlock]"
proof -
  note ok = RegisterAggregate_order_of_steps [of order_factory 7 init]
  note nil = RegisterAggregate_order_of_steps [of nil_factory 7 init]
  from ok have t1: "trace (snd (RegisterAggregate order_factory 7 init))
       = [Invoke 7, Lock, Load ''Order'', Store ''Order'', Unlock]"
    by (simp add: order_factory_def init_def)
  from nil have t2: "trace (snd (RegisterAggregate nil_factory 7 init)) = [Invoke 7]"
    by (simp add: nil_factory_def init_def)
  from ok have rest:
    "invocations (since init (snd (RegisterAggregate order_factory 7 init))) = [7]"
    "invoked_unlocked False (since init (snd (RegisterAggregate order_factory 7 init)))"
    "accessed_locked False (since init (snd (RegisterAggregate order_factory 7 init)))"
    by blast+
  from RegisterAggregate_order_of_steps
    [of order_factory_v1 8 "snd (RegisterAggregate order_factory 7 init)"]
  have t3: "trace (snd (RegisterAggregate order_factory_v1 8
                    (snd (RegisterAggregate order_factory 7 init))))
       = [Invoke 7, Lock, Load ''Order'', Store ''Order'', Unlock,
          Invoke 8, Lock, Load ''Order'', Unlock]"
    by (simp add: t1 order_factory_v1_def order_registered)
  from t1 rest t2 t3 show ?thesis by (intro conjI)
qed

section \<open>Panic messages\<close>




section \<open>Creation does not check what the factory returns\<close>

text \<open>
  C10. \<open>CreateAggregate\<close> returns the result of the registered factory as it is.
  Once a factory is registered, then after any further calls \<open>CreateAggregate\<close>
  returns, for every identifier, what the factory returns for it, with a nil error;
  where the factory returns nil, that is a nil instance with a nil error.
  Registration looks at the factory at the probe identifier only: every factory that
  returns the same probe is registered as well, and its results, whatever they are
  for other identifiers, are returned the same way.
\<close>

theorem CreateAggregate_unchecked:
  assumes "fst (RegisterAggregate factory newUUID s) = Returns ()"
      and "factory newUUID = Some probe"
  shows "fst (CreateAggregate (AggregateType probe) uid
                (run cs (snd (RegisterAggregate factory newUUID s))))
           = Returns (factory uid, None)
         \<and> (factory uid = None \<longrightarrow>
              fst (CreateAggregate (AggregateType probe) uid
                     (run cs (snd (RegisterAggregate factory newUUID s))))
                = Returns (None, None))
         \<and> (\<forall>g. g newUUID = Some probe \<longrightarrow>
              fst (RegisterAggregate g newUUID s) = Returns ()
              \<and> (\<forall>uid'. fst (CreateAggregate (AggregateType probe) uid'
                                (snd (RegisterAggregate g newUUID s)))
                           = Returns (g uid', None)))"
proof (intro conjI allI impI, goal_cases)
  case 1
  from assms
  have "aggregates (snd (RegisterAggregate factory newUUID s)) (AggregateType probe)
          = Some factory"
    by (rule RegisterAggregate_binds)
  then have "aggregates (run cs (snd (RegisterAggregate factory newUUID s)))
               (AggregateType probe) = Some factory"
    by (rule run_keeps_binding)
  then show ?case
    by (simp add: CreateAggregate_outcome)
next
  case 2
  from assms
  have "aggregates (snd (RegisterAggregate factory newUUID s)) (AggregateType probe)
          = Some factory"
    by (rule RegisterAggregate_binds)
  then have "aggregates (run cs (snd (RegisterAggregate factory newUUID s)))
               (AggregateType probe) = Some factory"
    by (rule run_keeps_binding)
  with 2 show ?case
    by (simp add: CreateAggregate_outcome)
next
  case (3 g)
  with assms show ?case
    by (simp add: RegisterAggregate_outcome)
next
  case (4 g uid')
  with assms have "fst (RegisterAggregate g newUUID s) = Returns ()"
    by (simp add: RegisterAggregate_outcome)
  from this 4
  have "aggregates (snd (RegisterAggregate g newUUID s)) (AggregateType probe) = Some g"
    by (rule RegisterAggregate_binds)
  then show ?case
    by (simp add: CreateAggregate_outcome)
qed

theorem CreateAggregate_unchecked_witness:
  "fst (RegisterAggregate sloppy_factory 7 init) = Returns ()
   \<and> sloppy_factory 7 = Some \<lparr>AggregateType = ''Order'', AggregateID = 7, Version = 0\<rparr>
   \<and> sloppy_factory 100 = None
   \<and> fst (CreateAggregate ''Order'' 100 (snd (RegisterAggregate sloppy_factory 7 init)))
       = Returns (None, None)
   \<and> fst (CreateAggregate ''Order'' 42 (snd (RegisterAggregate sloppy_factory 7 init)))
       = Returns (Some \<lparr>AggregateType = ''Invoice'', AggregateID = 0, Version = 0\<rparr>, None)
   \<and> fst (CreateAggregate ''Order'' 100
            (run [Create ''Order'' 1, Register order_factory 8]
               (snd (RegisterAggregate sloppy_factory 7 init))))
       = Returns (None, None)"
proof -
  let ?s1 = "snd (RegisterAggregate sloppy_factory 7 init)"
  have reg: "fst (RegisterAggregate sloppy_factory 7 init) = Returns ()"
    by (simp add: RegisterAggregate_outcome sloppy_factory_def init_def)
  have probe: "sloppy_factory 7
      = Some \<lparr>AggregateType = ''Order'', AggregateID = 7, Version = 0\<rparr>"
    by (simp add: sloppy_factory_def)
  have nil: "sloppy_factory 100 = None"
    by (simp add: sloppy_factory_def)
  have other: "sloppy_factory 42
      = Some \<lparr>AggregateType = ''Invoice'', AggregateID = 0, Version = 0\<rparr>"
    by (simp add: sloppy_factory_def)
  note at_once = CreateAggregate_unchecked
    [where factory = sloppy_factory and newUUID = 7 and s = init and cs = "[]",
     OF reg probe]
  note later = CreateAggregate_unchecked
    [where factory = sloppy_factory and newUUID = 7 and s = init
       and cs = "[Create ''Order'' 1, Register order_factory 8]" and uid = 100,
     OF reg probe, THEN conjunct1]
  from at_once [where uid = 100, THEN conjunct1]
  have c1: "fst (CreateAggregate ''Order'' 100 ?s1) = Returns (None, None)"
    by (simp add: nil)
  from at_once [where uid = 42, THEN conjunct1]
  have c2: "fst (CreateAggregate ''Order'' 42 ?s1)
      = Returns (Some \<lparr>AggregateType = ''Invoice'', AggregateID = 0, Version = 0\<rparr>, None)"
    by (simp add: other)
  from later
  have c3: "fst (CreateAggregate ''Order'' 100
            (run [Create ''Order'' 1, Register order_factory 8] ?s1))
       = Returns (None, None)"
    by (simp add: nil del: run.simps exec.simps)
  from reg probe nil c1 c2 c3 show ?thesis by (intro conjI)
qed

end
